theory Spec2Isabelle
  imports Complex_Main "HOL-Library.Multiset"
begin

section \<open>JavaScript numbers\<close>

text \<open>
  The mesh code of \<^verbatim>\<open>src/utils/fileParser.ts\<close> computes with JavaScript numbers.
  They are modelled as a real number or one of the three special values of IEEE 754
  arithmetic. Arithmetic on finite values is exact: rounding, overflow of finite values
  and the sign of zero are outside this model (a zero divisor is taken as +0, which is
  what \<open>max - min\<close> of equal values gives), and so is the rounding of the position
  array to 32-bit floats.
\<close>

datatype jsnum = Finite real | PosInfinity | NegInfinity | NaN



fun js_neg :: "jsnum \<Rightarrow> jsnum" where
  "js_neg (Finite a) = Finite (- a)"
| "js_neg PosInfinity = NegInfinity"
| "js_neg NegInfinity = PosInfinity"
| "js_neg NaN = NaN"

fun js_add :: "jsnum \<Rightarrow> jsnum \<Rightarrow> jsnum" where
  "js_add (Finite a) (Finite b) = Finite (a + b)"
| "js_add NaN _ = NaN"
| "js_add _ NaN = NaN"
| "js_add PosInfinity NegInfinity = NaN"
| "js_add NegInfinity PosInfinity = NaN"
| "js_add PosInfinity _ = PosInfinity"
| "js_add _ PosInfinity = PosInfinity"
| "js_add NegInfinity _ = NegInfinity"
| "js_add _ NegInfinity = NegInfinity"

definition js_sub :: "jsnum \<Rightarrow> jsnum \<Rightarrow> jsnum" where
  "js_sub a b = js_add a (js_neg b)"

text \<open>The sign of a non-NaN value, with zero counted as positive (+0).\<close>

fun js_negative :: "jsnum \<Rightarrow> bool" where
  "js_negative (Finite a) = (a < 0)"
| "js_negative NegInfinity = True"
| "js_negative _ = False"

definition signed_infinity :: "bool \<Rightarrow> jsnum" where
  "signed_infinity negative = (if negative then NegInfinity else PosInfinity)"

fun js_mul :: "jsnum \<Rightarrow> jsnum \<Rightarrow> jsnum" where
  "js_mul (Finite a) (Finite b) = Finite (a * b)"
| "js_mul NaN _ = NaN"
| "js_mul _ NaN = NaN"
| "js_mul (Finite a) b = (if a = 0 then NaN else signed_infinity ((a < 0) \<noteq> js_negative b))"
| "js_mul a (Finite b) = (if b = 0 then NaN else signed_infinity (js_negative a \<noteq> (b < 0)))"
| "js_mul a b = signed_infinity (js_negative a \<noteq> js_negative b)"

fun js_div :: "jsnum \<Rightarrow> jsnum \<Rightarrow> jsnum" where
  "js_div (Finite a) (Finite b) =
     (if b \<noteq> 0 then Finite (a / b)
      else if a = 0 then NaN
      else signed_infinity (a < 0))"
| "js_div NaN _ = NaN"
| "js_div _ NaN = NaN"
| "js_div (Finite a) _ = Finite 0"
| "js_div a (Finite b) = signed_infinity (js_negative a \<noteq> (b < 0))"
| "js_div _ _ = NaN"

fun js_abs :: "jsnum \<Rightarrow> jsnum" where
  "js_abs (Finite a) = Finite \<bar>a\<bar>"
| "js_abs NaN = NaN"
| "js_abs _ = PosInfinity"

fun js_sqrt :: "jsnum \<Rightarrow> jsnum" where
  "js_sqrt (Finite a) = (if a < 0 then NaN else Finite (sqrt a))"
| "js_sqrt PosInfinity = PosInfinity"
| "js_sqrt _ = NaN"

fun js_less :: "jsnum \<Rightarrow> jsnum \<Rightarrow> bool" where
  "js_less (Finite a) (Finite b) = (a < b)"
| "js_less NaN _ = False"
| "js_less _ NaN = False"
| "js_less _ NegInfinity = False"
| "js_less PosInfinity _ = False"
| "js_less _ _ = True"

fun js_le :: "jsnum \<Rightarrow> jsnum \<Rightarrow> bool" where
  "js_le (Finite a) (Finite b) = (a \<le> b)"
| "js_le NaN _ = False"
| "js_le _ NaN = False"
| "js_le NegInfinity _ = True"
| "js_le _ PosInfinity = True"
| "js_le _ _ = False"

definition js_gt :: "jsnum \<Rightarrow> jsnum \<Rightarrow> bool" where
  "js_gt a b = js_less b a"

definition js_ge :: "jsnum \<Rightarrow> jsnum \<Rightarrow> bool" where
  "js_ge a b = js_le b a"

text \<open>\<^verbatim>\<open>Math.min\<close> and \<^verbatim>\<open>Math.max\<close>: \<open>NaN\<close> if an argument is \<open>NaN\<close>.\<close>

fun js_min :: "jsnum \<Rightarrow> jsnum \<Rightarrow> jsnum" where
  "js_min NaN _ = NaN"
| "js_min _ NaN = NaN"
| "js_min a b = (if js_le a b then a else b)"

fun js_max :: "jsnum \<Rightarrow> jsnum \<Rightarrow> jsnum" where
  "js_max NaN _ = NaN"
| "js_max _ NaN = NaN"
| "js_max a b = (if js_le a b then b else a)"

section \<open>Vectors\<close>

text \<open>
  \<^verbatim>\<open>THREE.Vector3\<close> belongs to the three.js library; the methods the parser calls
  are modelled by the arithmetic the library documents for them. Methods that mutate
  their receiver return the new vector here.
\<close>

datatype Vector3 = Vector3 (vx: jsnum) (vy: jsnum) (vz: jsnum)

definition dot :: "Vector3 \<Rightarrow> Vector3 \<Rightarrow> jsnum" where
  "dot a b = js_add (js_add (js_mul (vx a) (vx b)) (js_mul (vy a) (vy b))) (js_mul (vz a) (vz b))"

definition cross :: "Vector3 \<Rightarrow> Vector3 \<Rightarrow> Vector3" where
  "cross a b = Vector3
     (js_sub (js_mul (vy a) (vz b)) (js_mul (vz a) (vy b)))
     (js_sub (js_mul (vz a) (vx b)) (js_mul (vx a) (vz b)))
     (js_sub (js_mul (vx a) (vy b)) (js_mul (vy a) (vx b)))"

definition sub :: "Vector3 \<Rightarrow> Vector3 \<Rightarrow> Vector3" where
  "sub a b = Vector3 (js_sub (vx a) (vx b)) (js_sub (vy a) (vy b)) (js_sub (vz a) (vz b))"

definition length_v :: "Vector3 \<Rightarrow> jsnum" where
  "length_v a = js_sqrt (js_add (js_add (js_mul (vx a) (vx a)) (js_mul (vy a) (vy a))) (js_mul (vz a) (vz a)))"

definition lerp :: "Vector3 \<Rightarrow> Vector3 \<Rightarrow> jsnum \<Rightarrow> Vector3" where
  "lerp a b alpha = Vector3
     (js_add (vx a) (js_mul (js_sub (vx b) (vx a)) alpha))
     (js_add (vy a) (js_mul (js_sub (vy b) (vy a)) alpha))
     (js_add (vz a) (js_mul (js_sub (vz b) (vz a)) alpha))"

definition distanceTo :: "Vector3 \<Rightarrow> Vector3 \<Rightarrow> jsnum" where
  "distanceTo a b =
     (let dx = js_sub (vx a) (vx b); dy = js_sub (vy a) (vy b); dz = js_sub (vz a) (vz b)
      in js_sqrt (js_add (js_add (js_mul dx dx) (js_mul dy dy)) (js_mul dz dz)))"

section \<open>Intersection of a triangle with a horizontal plane\<close>

text \<open>
  The callback of \<^verbatim>\<open>edges.forEach\<close> in \<^verbatim>\<open>getTriangleZPlaneIntersections\<close>:
  the points it pushes for one edge.
\<close>

definition edgeIntersections :: "Vector3 \<Rightarrow> Vector3 \<Rightarrow> jsnum \<Rightarrow> jsnum \<Rightarrow> Vector3 list" where
  "edgeIntersections start end z tolerance =
     (if (js_le (vz start) (js_add z tolerance) \<and> js_ge (vz end) (js_sub z tolerance)) \<or>
         (js_ge (vz start) (js_sub z tolerance) \<and> js_le (vz end) (js_add z tolerance))
      then
        (if js_gt (js_abs (js_sub (vz start) (vz end))) tolerance
         then
           (let t = js_div (js_sub z (vz start)) (js_sub (vz end) (vz start));
                intersection = lerp start end t
            in [Vector3 (vx intersection) (vy intersection) z])
         else [])
      else [])"

definition getTriangleZPlaneIntersections ::
  "Vector3 \<Rightarrow> Vector3 \<Rightarrow> Vector3 \<Rightarrow> jsnum \<Rightarrow> jsnum \<Rightarrow> Vector3 list" where
  "getTriangleZPlaneIntersections v1 v2 v3 z tolerance =
     (let edges = [(v1, v2), (v2, v3), (v3, v1)]
      in fold (\<lambda>(start, end) intersections. intersections @ edgeIntersections start end z tolerance)
           edges [])"

section \<open>Loops and typed arrays\<close>

text \<open>
  \<^verbatim>\<open>for (let i = i0; i < n; i += step) body\<close>, with the loop's variables as the
  state \<open>s\<close>. The source's strides are the literals 1, 3 and 9; the test
  \<open>0 < step\<close> only makes the function total for every argument.
\<close>

function for_loop :: "nat \<Rightarrow> nat \<Rightarrow> nat \<Rightarrow> (nat \<Rightarrow> 's \<Rightarrow> 's) \<Rightarrow> 's \<Rightarrow> 's" where
  "for_loop i n step body s =
     (if i < n \<and> 0 < step then for_loop (i + step) n step body (body i s) else s)"
  by pat_completeness auto
termination
  by (relation "measure (\<lambda>(i, n, step, body, s). n - i)") auto

declare for_loop.simps [simp del]

text \<open>
  Reading a typed array: \<^verbatim>\<open>indices[i] * 3\<close> is an offset, or \<open>NaN\<close> (here
  \<open>None\<close>) past the end; \<^verbatim>\<open>positions[a + k]\<close> is a number, or \<^verbatim>\<open>undefined\<close>
  (here \<open>None\<close>) past the end and at the offset \<open>NaN\<close>.
\<close>

definition index_offset :: "nat list \<Rightarrow> nat \<Rightarrow> nat option" where
  "index_offset indices i = (if i < length indices then Some (indices ! i * 3) else None)"

definition arr_read :: "jsnum list \<Rightarrow> nat option \<Rightarrow> nat \<Rightarrow> jsnum option" where
  "arr_read positions a k =
     (case a of
        None \<Rightarrow> None
      | Some a \<Rightarrow> if a + k < length positions then Some (positions ! (a + k)) else None)"

text \<open>
  The constructor \<^verbatim>\<open>new THREE.Vector3(x, y, z)\<close>: each parameter defaults to 0, so
  an argument that is \<^verbatim>\<open>undefined\<close> gives the coordinate 0.
\<close>

definition newVector3 :: "jsnum option \<Rightarrow> jsnum option \<Rightarrow> jsnum option \<Rightarrow> Vector3" where
  "newVector3 x y z =
     Vector3 (case x of None \<Rightarrow> Finite 0 | Some v \<Rightarrow> v)
             (case y of None \<Rightarrow> Finite 0 | Some v \<Rightarrow> v)
             (case z of None \<Rightarrow> Finite 0 | Some v \<Rightarrow> v)"

text \<open>\<^verbatim>\<open>new THREE.Vector3(positions[a], positions[a + 1], positions[a + 2])\<close>\<close>

definition vertexAt :: "jsnum list \<Rightarrow> nat option \<Rightarrow> Vector3" where
  "vertexAt positions a =
     newVector3 (arr_read positions a 0) (arr_read positions a 1) (arr_read positions a 2)"

section \<open>Geometry and bounding box\<close>

text \<open>
  \<^verbatim>\<open>THREE.Box3\<close>: \<open>box_min\<close> and \<open>box_max\<close> are its fields \<^verbatim>\<open>min\<close> and
  \<^verbatim>\<open>max\<close>.
\<close>

datatype Box3 = Box3 (box_min: Vector3) (box_max: Vector3)

text \<open>
  A \<^verbatim>\<open>THREE.BufferGeometry\<close> whose position attribute is present:
  \<open>positions\<close> is \<^verbatim>\<open>geometry.attributes.position.array\<close> (three numbers for each
  vertex), \<open>index\<close> is \<^verbatim>\<open>geometry.index.array\<close> when the geometry has an index,
  \<open>boundingBox\<close> is \<^verbatim>\<open>geometry.boundingBox\<close> as \<^verbatim>\<open>computeBoundingBox\<close> left it.
  The loaders build the position array from whole vertices, so the vertex count is a
  third of its length.
\<close>

record Geometry =
  positions :: "jsnum list"
  index :: "nat list option"
  boundingBox :: Box3

text \<open>The number of vertices, \<^verbatim>\<open>geometry.attributes.position.count\<close>.\<close>

definition vertexCount :: "jsnum list \<Rightarrow> nat" where
  "vertexCount ps = length ps div 3"

text \<open>
  The coordinates of all vertices along one axis (0, 1 or 2), as \<^verbatim>\<open>getX\<close>,
  \<^verbatim>\<open>getY\<close> and \<^verbatim>\<open>getZ\<close> of the position attribute read them.
\<close>

definition axis :: "nat \<Rightarrow> jsnum list \<Rightarrow> jsnum list" where
  "axis k ps = map (\<lambda>i. ps ! (3 * i + k)) [0..<vertexCount ps]"

text \<open>
  \<^verbatim>\<open>geometry.computeBoundingBox()\<close>: the box starts empty (\<open>min = +\<infinity>\<close>,
  \<open>max = -\<infinity>\<close>) and is expanded by every vertex, with \<^verbatim>\<open>Math.min\<close> and
  \<^verbatim>\<open>Math.max\<close> on each axis.
\<close>

definition computeBoundingBox :: "jsnum list \<Rightarrow> Box3" where
  "computeBoundingBox ps =
     Box3
       (Vector3 (fold (\<lambda>v m. js_min m v) (axis 0 ps) PosInfinity)
                (fold (\<lambda>v m. js_min m v) (axis 1 ps) PosInfinity)
                (fold (\<lambda>v m. js_min m v) (axis 2 ps) PosInfinity))
       (Vector3 (fold (\<lambda>v m. js_max m v) (axis 0 ps) NegInfinity)
                (fold (\<lambda>v m. js_max m v) (axis 1 ps) NegInfinity)
                (fold (\<lambda>v m. js_max m v) (axis 2 ps) NegInfinity))"

definition isEmpty :: "Box3 \<Rightarrow> bool" where
  "isEmpty b =
     (js_less (vx (box_max b)) (vx (box_min b)) \<or>
      js_less (vy (box_max b)) (vy (box_min b)) \<or>
      js_less (vz (box_max b)) (vz (box_min b)))"

definition getCenter :: "Box3 \<Rightarrow> Vector3" where
  "getCenter b =
     (if isEmpty b then Vector3 (Finite 0) (Finite 0) (Finite 0)
      else Vector3
        (js_mul (js_add (vx (box_min b)) (vx (box_max b))) (Finite (1/2)))
        (js_mul (js_add (vy (box_min b)) (vy (box_max b))) (Finite (1/2)))
        (js_mul (js_add (vz (box_min b)) (vz (box_max b))) (Finite (1/2))))"

definition getSize :: "Box3 \<Rightarrow> Vector3" where
  "getSize b =
     (if isEmpty b then Vector3 (Finite 0) (Finite 0) (Finite 0)
      else sub (box_max b) (box_min b))"

definition component :: "Vector3 \<Rightarrow> nat \<Rightarrow> jsnum" where
  "component v k = (if k = 0 then vx v else if k = 1 then vy v else vz v)"

text \<open>
  \<^verbatim>\<open>geometry.translate\<close> and \<^verbatim>\<open>geometry.scale\<close> build a 4x4 matrix and apply it
  to every vertex of the position attribute. A matrix is its array \<^verbatim>\<open>elements\<close>
  (column by column, indices 0 to 15); \<^verbatim>\<open>Vector3.applyMatrix4\<close> divides by the
  fourth coordinate of the product.
\<close>

type_synonym Matrix4 = "nat \<Rightarrow> jsnum"

definition makeTranslation :: "jsnum \<Rightarrow> jsnum \<Rightarrow> jsnum \<Rightarrow> Matrix4" where
  "makeTranslation x y z =
     (\<lambda>k. if k = 0 \<or> k = 5 \<or> k = 10 \<or> k = 15 then Finite 1
          else if k = 12 then x else if k = 13 then y else if k = 14 then z
          else Finite 0)"

definition makeScale :: "jsnum \<Rightarrow> jsnum \<Rightarrow> jsnum \<Rightarrow> Matrix4" where
  "makeScale x y z =
     (\<lambda>k. if k = 0 then x else if k = 5 then y else if k = 10 then z
          else if k = 15 then Finite 1
          else Finite 0)"

definition applyMatrix4 :: "Vector3 \<Rightarrow> Matrix4 \<Rightarrow> Vector3" where
  "applyMatrix4 v e =
     (let x = vx v; y = vy v; z = vz v;
          w = js_div (Finite 1)
                (js_add (js_add (js_add (js_mul (e 3) x) (js_mul (e 7) y)) (js_mul (e 11) z)) (e 15))
      in Vector3
           (js_mul (js_add (js_add (js_add (js_mul (e 0) x) (js_mul (e 4) y)) (js_mul (e 8) z)) (e 12)) w)
           (js_mul (js_add (js_add (js_add (js_mul (e 1) x) (js_mul (e 5) y)) (js_mul (e 9) z)) (e 13)) w)
           (js_mul (js_add (js_add (js_add (js_mul (e 2) x) (js_mul (e 6) y)) (js_mul (e 10) z)) (e 14)) w))"

text \<open>
  The position array after \<^verbatim>\<open>position.applyMatrix4(matrix)\<close>: element \<open>j\<close> is
  coordinate \<open>j mod 3\<close> of the image of vertex \<open>j div 3\<close>.
\<close>

definition geometry_applyMatrix4 :: "jsnum list \<Rightarrow> Matrix4 \<Rightarrow> jsnum list" where
  "geometry_applyMatrix4 ps e =
     map (\<lambda>j. if j < 3 * vertexCount ps
              then (let i = j div 3;
                        v = applyMatrix4 (Vector3 (ps ! (3 * i)) (ps ! (3 * i + 1)) (ps ! (3 * i + 2))) e
                    in component v (j mod 3))
              else ps ! j)
       [0..<length ps]"

definition geometry_translate :: "jsnum list \<Rightarrow> jsnum \<Rightarrow> jsnum \<Rightarrow> jsnum \<Rightarrow> jsnum list" where
  "geometry_translate ps x y z = geometry_applyMatrix4 ps (makeTranslation x y z)"

definition geometry_scale :: "jsnum list \<Rightarrow> jsnum \<Rightarrow> jsnum \<Rightarrow> jsnum \<Rightarrow> jsnum list" where
  "geometry_scale ps x y z = geometry_applyMatrix4 ps (makeScale x y z)"

section \<open>Mesh metrics\<close>

text \<open>The three corners of the triangle a loop iteration at \<open>i\<close> reads.\<close>

definition indexedTriangle :: "jsnum list \<Rightarrow> nat list \<Rightarrow> nat \<Rightarrow> Vector3 \<times> Vector3 \<times> Vector3" where
  "indexedTriangle pos indices i =
     (let a = index_offset indices i;
          b = index_offset indices (i + 1);
          c = index_offset indices (i + 2)
      in (vertexAt pos a, vertexAt pos b, vertexAt pos c))"

definition soupTriangle :: "jsnum list \<Rightarrow> nat \<Rightarrow> Vector3 \<times> Vector3 \<times> Vector3" where
  "soupTriangle pos i =
     (vertexAt pos (Some i), vertexAt pos (Some (i + 3)), vertexAt pos (Some (i + 6)))"

definition calculateVolume :: "Geometry \<Rightarrow> jsnum" where
  "calculateVolume geometry =
     (let pos = positions geometry;
          volume =
            (case index geometry of
               Some indices \<Rightarrow>
                 for_loop 0 (length indices) 3
                   (\<lambda>i volume. case indexedTriangle pos indices i of (v1, v2, v3) \<Rightarrow>
                      js_add volume (js_div (dot v1 (cross v2 v3)) (Finite 6)))
                   (Finite 0)
             | None \<Rightarrow>
                 for_loop 0 (length pos) 9
                   (\<lambda>i volume. case soupTriangle pos i of (v1, v2, v3) \<Rightarrow>
                      js_add volume (js_div (dot v1 (cross v2 v3)) (Finite 6)))
                   (Finite 0))
      in js_abs volume)"

definition triangleArea :: "Vector3 \<times> Vector3 \<times> Vector3 \<Rightarrow> jsnum" where
  "triangleArea tri =
     (case tri of (v1, v2, v3) \<Rightarrow>
        (let edge1 = sub v2 v1; edge2 = sub v3 v1
         in js_div (length_v (cross edge1 edge2)) (Finite 2)))"

definition calculateSurfaceArea :: "Geometry \<Rightarrow> jsnum" where
  "calculateSurfaceArea geometry =
     (let pos = positions geometry
      in case index geometry of
           Some indices \<Rightarrow>
             for_loop 0 (length indices) 3
               (\<lambda>i area. js_add area (triangleArea (indexedTriangle pos indices i)))
               (Finite 0)
         | None \<Rightarrow>
             for_loop 0 (length pos) 9
               (\<lambda>i area. js_add area (triangleArea (soupTriangle pos i)))
               (Finite 0))"

section \<open>Slicer\<close>

text \<open>
  The inner \<^verbatim>\<open>for\<close> loop of \<^verbatim>\<open>sortContourPoints\<close>; its state is
  \<open>(nearestIndex, nearestDistance)\<close>.
\<close>

definition nearestLoop :: "Vector3 \<Rightarrow> Vector3 list \<Rightarrow> nat \<times> jsnum" where
  "nearestLoop current remaining =
     for_loop 1 (length remaining) 1
       (\<lambda>i (nearestIndex, nearestDistance).
          let distance = distanceTo current (remaining ! i)
          in if js_less distance nearestDistance then (i, distance)
             else (nearestIndex, nearestDistance))
       (0, distanceTo current (remaining ! 0))"

text \<open>\<^verbatim>\<open>remaining.splice(nearestIndex, 1)\<close>\<close>

definition splice1 :: "'a list \<Rightarrow> nat \<Rightarrow> 'a list" where
  "splice1 xs k = take k xs @ drop (k + 1) xs"

text \<open>An invariant of the loop state holds after the loop if every iteration keeps it.\<close>

lemma for_loop_invariant:
  assumes "I s" and "\<And>j t. j < n \<Longrightarrow> I t \<Longrightarrow> I (body j t)"
  shows "I (for_loop i n step body s)"
  using assms
proof (induction i n step body s rule: for_loop.induct)
  case (1 i n step body s)
  show ?case
  proof (cases "i < n \<and> 0 < step")
    case True
    have "I (body i s)" using True 1(2,3) by blast
    then have "I (for_loop (i + step) n step body (body i s))"
      using 1(1)[OF True] 1(3) by blast
    then show ?thesis by (subst for_loop.simps) (use True in auto)
  next
    case False
    then show ?thesis by (subst for_loop.simps) (use 1(2) in auto)
  qed
qed

lemma nearestLoop_in_range:
  assumes "remaining \<noteq> []"
  shows "fst (nearestLoop current remaining) < length remaining"
  unfolding nearestLoop_def
  by (rule for_loop_invariant) (use assms in \<open>auto simp: Let_def split: prod.splits\<close>)

lemma length_splice1: "k < length xs \<Longrightarrow> length (splice1 xs k) < length xs"
  by (simp add: splice1_def)

text \<open>
  The \<^verbatim>\<open>while (remaining.length > 0)\<close> loop of \<^verbatim>\<open>sortContourPoints\<close>. The array
  \<^verbatim>\<open>sorted\<close> is never empty; it is held as \<open>front @ [current]\<close>, so that
  \<^verbatim>\<open>sorted[sorted.length - 1]\<close> is \<open>current\<close>.
\<close>

function stitch :: "Vector3 list \<Rightarrow> Vector3 \<Rightarrow> Vector3 list \<Rightarrow> Vector3 list" where
  "stitch front current remaining =
     (if length remaining > 0 then
        (let nearestIndex = fst (nearestLoop current remaining)
         in stitch (front @ [current]) (remaining ! nearestIndex) (splice1 remaining nearestIndex))
      else front @ [current])"
  by pat_completeness auto
termination
  by (relation "measure (\<lambda>(front, current, remaining). length remaining)")
     (auto intro!: length_splice1 nearestLoop_in_range)

declare stitch.simps [simp del]

definition sortContourPoints :: "Vector3 list \<Rightarrow> Vector3 list" where
  "sortContourPoints points =
     (if length points \<le> 2 then points
      else stitch [] (points ! 0) (drop 1 points))"

definition generateSliceContour :: "Geometry \<Rightarrow> jsnum \<Rightarrow> Vector3 list" where
  "generateSliceContour geometry z =
     (let pos = positions geometry;
          tolerance = Finite (1/10);
          contour =
            (case index geometry of
               Some indices \<Rightarrow>
                 for_loop 0 (length indices) 3
                   (\<lambda>i contour. case indexedTriangle pos indices i of (v1, v2, v3) \<Rightarrow>
                      contour @ getTriangleZPlaneIntersections v1 v2 v3 z tolerance)
                   []
             | None \<Rightarrow> [])
      in if length contour > 2 then sortContourPoints contour else contour)"

definition sliceCount :: nat where
  "sliceCount = 20"

definition sliceHeightAt :: "Geometry \<Rightarrow> nat \<Rightarrow> jsnum" where
  "sliceHeightAt geometry i =
     (let minZ = vz (box_min (boundingBox geometry));
          maxZ = vz (box_max (boundingBox geometry));
          sliceHeight = js_div (js_sub maxZ minZ) (Finite (real sliceCount))
      in js_add minZ (js_mul (Finite (real i)) sliceHeight))"

definition generateCuttingPaths :: "Geometry \<Rightarrow> Vector3 list list" where
  "generateCuttingPaths geometry =
     for_loop 0 (sliceCount + 1) 1
       (\<lambda>i paths.
          let z = sliceHeightAt geometry i;
              slicePath = generateSliceContour geometry z
          in if length slicePath > 0 then paths @ [slicePath] else paths)
       []"

section \<open>Parsing a file\<close>

text \<open>
  The loaders (\<^verbatim>\<open>STLLoader\<close>, \<^verbatim>\<open>OBJLoader\<close>, \<^verbatim>\<open>PLYLoader\<close>) are library code.
  What the selected loader did with the bytes is an input of the model: it threw an
  exception with a message (so did \<^verbatim>\<open>objGroup.children[0].geometry\<close> on an empty
  group), or it returned a geometry, with or without a position attribute and with or
  without an index.
\<close>

datatype LoaderResult =
    Throws string
  | Loaded "jsnum list option" "nat list option"

record ParsedModel =
  geometry :: Geometry
  cuttingPaths :: "Vector3 list list"
  vertices :: nat
  faces :: jsnum
  volume :: jsnum
  surfaceArea :: jsnum

text \<open>
  \<^verbatim>\<open>FileParseResult\<close>: \<open>Success\<close> is \<^verbatim>\<open>{ success: true, model }\<close>, \<open>Failure\<close>
  is \<^verbatim>\<open>{ success: false, error }\<close>. The material and the \<^verbatim>\<open>THREE.Mesh\<close> object of
  the model are for rendering only and are left out, and so are the vertex normals.
\<close>

datatype FileParseResult = Success ParsedModel | Failure string

text \<open>Lines 76 to 86 of \<^verbatim>\<open>parseFile\<close>: center and scale the geometry.\<close>

definition centerAndScale :: "jsnum list \<Rightarrow> nat list option \<Rightarrow> Geometry" where
  "centerAndScale pos idx =
     (let boundingBox = computeBoundingBox pos;
          center = getCenter boundingBox;
          size = getSize boundingBox;
          maxDimension = js_max (js_max (vx size) (vy size)) (vz size);
          scale = js_div (Finite 100) maxDimension;
          pos1 = geometry_translate pos
                   (js_neg (vx center)) (js_neg (vy center)) (js_neg (vz center));
          pos2 = geometry_scale pos1 scale scale scale
      in \<lparr>positions = pos2, index = idx, boundingBox = computeBoundingBox pos2\<rparr>)"

definition supportedExtension :: "string \<Rightarrow> bool" where
  "supportedExtension extension =
     (extension = ''stl'' \<or> extension = ''obj'' \<or> extension = ''ply'')"

text \<open>
  \<^verbatim>\<open>parseFile\<close>, from the lower-cased extension of the file name and the outcome of
  the loader.
\<close>

definition parseFile :: "string \<Rightarrow> LoaderResult \<Rightarrow> FileParseResult" where
  "parseFile extension loaded =
     (if \<not> supportedExtension extension then
        Failure (''Unsupported file format: '' @ extension @ ''. Supported formats: STL, OBJ, PLY'')
      else
        (case loaded of
           Throws message \<Rightarrow> Failure (''Failed to parse file: '' @ message)
         | Loaded None idx \<Rightarrow> Failure ''Invalid geometry: missing position attributes''
         | Loaded (Some pos) idx \<Rightarrow>
             (let geometry = centerAndScale pos idx;
                  vertices = vertexCount (positions geometry);
                  faces = (case index geometry of
                             Some indices \<Rightarrow> js_div (Finite (real (length indices))) (Finite 3)
                           | None \<Rightarrow> js_div (Finite (real vertices)) (Finite 3));
                  volume = calculateVolume geometry;
                  surfaceArea = calculateSurfaceArea geometry;
                  cuttingPaths = generateCuttingPaths geometry
              in Success \<lparr>geometry = geometry, cuttingPaths = cuttingPaths,
                          vertices = vertices, faces = faces,
                          volume = volume, surfaceArea = surfaceArea\<rparr>)))"

section \<open>Notions used to state the properties\<close>

text \<open>
  An edge crosses the plane \<open>Z = z\<close> within the tolerance: one endpoint is at most
  \<open>z + tolerance\<close> high and the other at least \<open>z - tolerance\<close>, and the heights of
  the two endpoints differ by more than the tolerance.
\<close>

definition edgeCrosses :: "Vector3 \<Rightarrow> Vector3 \<Rightarrow> jsnum \<Rightarrow> jsnum \<Rightarrow> bool" where
  "edgeCrosses start end z tolerance =
     (((js_le (vz start) (js_add z tolerance) \<and> js_le (js_sub z tolerance) (vz end)) \<or>
       (js_le (vz end) (js_add z tolerance) \<and> js_le (js_sub z tolerance) (vz start))) \<and>
      js_less tolerance (js_abs (js_sub (vz start) (vz end))))"

definition crossingEdges :: "Vector3 \<Rightarrow> Vector3 \<Rightarrow> Vector3 \<Rightarrow> jsnum \<Rightarrow> jsnum \<Rightarrow> nat" where
  "crossingEdges v1 v2 v3 z tolerance =
     length (filter (\<lambda>(start, end). edgeCrosses start end z tolerance) [(v1, v2), (v2, v3), (v3, v1)])"

text \<open>The values the variable of a \<^verbatim>\<open>for\<close> loop takes, in order.\<close>

function loop_range :: "nat \<Rightarrow> nat \<Rightarrow> nat \<Rightarrow> nat list" where
  "loop_range i n step = (if i < n \<and> 0 < step then i # loop_range (i + step) n step else [])"
  by pat_completeness auto
termination
  by (relation "measure (\<lambda>(i, n, step). n - i)") auto

declare loop_range.simps [simp del]







text \<open>Sample contour points, all at height 2.\<close>

definition samplePoints :: "Vector3 list" where
  "samplePoints =
     [Vector3 (Finite 0) (Finite 0) (Finite 2),
      Vector3 (Finite 5) (Finite 0) (Finite 2),
      Vector3 (Finite 1) (Finite 0) (Finite 2)]"

text \<open>Sample geometries: a triangle soup, and an indexed mesh of two small triangles far apart.\<close>

definition soup :: Geometry where
  "soup = \<lparr>positions = [Finite 0, Finite 0, Finite 0,  Finite 1, Finite 0, Finite 0,  Finite 0, Finite 1, Finite 5],
           index = None,
           boundingBox = Box3 (Vector3 (Finite 0) (Finite 0) (Finite 0)) (Vector3 (Finite 1) (Finite 1) (Finite 5))\<rparr>"

definition twoTriangles :: Geometry where
  "twoTriangles =
     \<lparr>positions = [Finite 0, Finite 0, Finite 0,  Finite 4, Finite 0, Finite 1,  Finite 0, Finite 4, Finite 1,
                   Finite 0, Finite 0, Finite 19,  Finite 4, Finite 0, Finite 20,  Finite 0, Finite 4, Finite 20],
      index = Some [0, 1, 2, 3, 4, 5],
      boundingBox = Box3 (Vector3 (Finite 0) (Finite 0) (Finite 0)) (Vector3 (Finite 4) (Finite 4) (Finite 20))\<rparr>"




text \<open>
  The maximum dimension of a bounding box, \<^verbatim>\<open>Math.max(size.x, size.y, size.z)\<close>, and
  the scale factor \<^verbatim>\<open>100 / maxDimension\<close> that \<^verbatim>\<open>parseFile\<close> computes from the bounding
  box of a position array.
\<close>

definition boxMaxDimension :: "Box3 \<Rightarrow> jsnum" where
  "boxMaxDimension b = (let size = getSize b in js_max (js_max (vx size) (vy size)) (vz size))"

definition scaleFactor :: "jsnum list \<Rightarrow> jsnum" where
  "scaleFactor pos = js_div (Finite 100) (boxMaxDimension (computeBoundingBox pos))"




text \<open>The field \<^verbatim>\<open>success\<close> of a \<^verbatim>\<open>FileParseResult\<close>.\<close>

fun success :: "FileParseResult \<Rightarrow> bool" where
  "success (Success model) = True"
| "success (Failure error) = False"

text \<open>
  Sample position arrays: a triangle whose three corners coincide, a triangle in the
  plane \<open>Z = 5\<close>, and three vertices of which one has an infinite coordinate.
\<close>

definition degeneratePositions :: "jsnum list" where
  "degeneratePositions =
     [Finite 1, Finite 2, Finite 3,  Finite 1, Finite 2, Finite 3,  Finite 1, Finite 2, Finite 3]"


definition flatPositions :: "jsnum list" where
  "flatPositions =
     [Finite 0, Finite 0, Finite 5,  Finite 2, Finite 0, Finite 5,  Finite 0, Finite 1, Finite 5]"

section \<open>Loops as folds\<close>

lemma for_loop_fold: "for_loop i n step body s = fold body (loop_range i n step) s"
proof (induction i n step body s rule: for_loop.induct)
  case (1 i n step body s)
  show ?case
  proof (cases "i < n \<and> 0 < step")
    case True
    then show ?thesis
      using 1[OF True] by (subst for_loop.simps, subst loop_range.simps) simp
  next
    case False
    then show ?thesis
      by (subst for_loop.simps, subst loop_range.simps) auto
  qed
qed

lemma loop_range_unit: "loop_range i n 1 = [i..<n]"
proof (induction i n "1::nat" rule: loop_range.induct)
  case (1 i n)
  show ?case
  proof (cases "i < n")
    case True
    then show ?thesis using 1 by (subst loop_range.simps) (simp add: upt_conv_Cons)
  next
    case False
    then show ?thesis by (subst loop_range.simps) simp
  qed
qed


section \<open>Intersection points of one triangle\<close>

lemma length_edgeIntersections:
  "length (edgeIntersections s e z tol) = (if edgeCrosses s e z tol then 1 else 0)"
  by (auto simp: edgeIntersections_def edgeCrosses_def js_ge_def js_gt_def Let_def)

lemma edgeIntersections_z: "p \<in> set (edgeIntersections s e z tol) \<Longrightarrow> vz p = z"
  by (auto simp: edgeIntersections_def Let_def split: if_splits)

lemma getTriangle_unfold:
  "getTriangleZPlaneIntersections v1 v2 v3 z tol =
     edgeIntersections v1 v2 z tol @ edgeIntersections v2 v3 z tol @ edgeIntersections v3 v1 z tol"
  by (simp add: getTriangleZPlaneIntersections_def)

text \<open>
  C2, as the code has it. \<^verbatim>\<open>getTriangleZPlaneIntersections\<close> tests each of the three
  edges on its own and emits one point for each edge that crosses the plane within the
  tolerance. The number of points is the number of such edges: 0, 1, 2 or 3, and it is
  2 exactly when two edges cross.
\<close>

theorem triangle_intersections_count:
  "length (getTriangleZPlaneIntersections v1 v2 v3 z tol) = crossingEdges v1 v2 v3 z tol
   \<and> crossingEdges v1 v2 v3 z tol \<le> 3"
  by (simp add: getTriangle_unfold length_edgeIntersections crossingEdges_def)

theorem triangle_intersections_count_witness:
  "length (getTriangleZPlaneIntersections
     (Vector3 (Finite 0) (Finite 0) (Finite 0))
     (Vector3 (Finite 1) (Finite 0) (Finite 0))
     (Vector3 (Finite 0) (Finite 1) (Finite 2))
     (Finite 1) (Finite (1/10))) = 2"
  using triangle_intersections_count[of "Vector3 (Finite 0) (Finite 0) (Finite 0)"
     "Vector3 (Finite 1) (Finite 0) (Finite 0)" "Vector3 (Finite 0) (Finite 1) (Finite 2)"
     "Finite 1" "Finite (1/10)"]
  by (simp add: crossingEdges_def edgeCrosses_def js_sub_def)

text \<open>
  C2 as stated fails: with one corner on the plane and the other two on either side
  of it, all three edges pass the test and three points are emitted (two of them are
  the corner itself).
\<close>

theorem triangle_three_points:
  "length (getTriangleZPlaneIntersections
     (Vector3 (Finite 0) (Finite 0) (Finite 0))
     (Vector3 (Finite 1) (Finite 0) (Finite 1))
     (Vector3 (Finite 0) (Finite 1) (Finite (-1)))
     (Finite 0) (Finite (1/10))) = 3"
  by (simp add: getTriangle_unfold length_edgeIntersections edgeCrosses_def js_sub_def)

section \<open>Contour stitching\<close>

lemma mset_splice1: "k < length xs \<Longrightarrow> add_mset (xs ! k) (mset (splice1 xs k)) = mset xs"
proof -
  assume "k < length xs"
  then have "xs = take k xs @ xs ! k # drop (Suc k) xs" by (rule id_take_nth_drop)
  then have "mset xs = mset (take k xs @ xs ! k # drop (Suc k) xs)" by simp
  then show ?thesis by (simp add: splice1_def)
qed

lemma mset_stitch: "mset (stitch front current remaining) = mset front + {#current#} + mset remaining"
proof (induction front current remaining rule: stitch.induct)
  case (1 front current remaining)
  show ?case
  proof (cases "length remaining > 0")
    case True
    define k where "k = fst (nearestLoop current remaining)"
    have k: "k < length remaining" unfolding k_def using True by (intro nearestLoop_in_range) auto
    have "mset (stitch front current remaining) =
          mset (stitch (front @ [current]) (remaining ! k) (splice1 remaining k))"
      using True by (subst stitch.simps) (simp add: k_def Let_def)
    also have "\<dots> = mset (front @ [current]) + {#remaining ! k#} + mset (splice1 remaining k)"
      using 1[OF True] by (simp add: k_def)
    finally show ?thesis using mset_splice1[OF k] by (simp)
  next
    case False
    then show ?thesis by (subst stitch.simps) simp
  qed
qed

lemma stitch_prefix: "\<exists>ys. stitch front current remaining = front @ current # ys"
proof (induction front current remaining rule: stitch.induct)
  case (1 front current remaining)
  show ?case
  proof (cases "length remaining > 0")
    case True
    then show ?thesis using 1[OF True] by (subst stitch.simps) (auto simp: Let_def)
  next
    case False
    then show ?thesis by (subst stitch.simps) simp
  qed
qed

lemma mset_sortContourPoints: "mset (sortContourPoints points) = mset points"
proof (cases "length points \<le> 2")
  case True
  then show ?thesis by (simp add: sortContourPoints_def)
next
  case False
  then obtain p ps where "points = p # ps" by (cases points) auto
  then show ?thesis using False by (simp add: sortContourPoints_def mset_stitch)
qed

text \<open>
  C10. \<^verbatim>\<open>sortContourPoints\<close> returns a permutation of its input: the same multiset
  of points and the same length. With three or more points the first point stays first;
  with at most two points the input comes back unchanged.
\<close>

theorem sortContourPoints_permutation:
  "mset (sortContourPoints points) = mset points
   \<and> length (sortContourPoints points) = length points
   \<and> (3 \<le> length points \<longrightarrow> sortContourPoints points ! 0 = points ! 0)
   \<and> (length points \<le> 2 \<longrightarrow> sortContourPoints points = points)"
proof -
  have m: "mset (sortContourPoints points) = mset points" by (rule mset_sortContourPoints)
  have l: "length (sortContourPoints points) = length points"
    using m by (rule mset_eq_length)
  have f: "sortContourPoints points ! 0 = points ! 0" if "3 \<le> length points"
  proof -
    obtain ys where "stitch [] (points ! 0) (drop 1 points) = [] @ points ! 0 # ys"
      using stitch_prefix by blast
    then show ?thesis using that by (simp add: sortContourPoints_def)
  qed
  have u: "sortContourPoints points = points" if "length points \<le> 2"
    using that by (simp add: sortContourPoints_def)
  show ?thesis using m l f u by blast
qed

lemmas stitch_eval = sortContourPoints_def stitch.simps nearestLoop_def for_loop.simps
  splice1_def distanceTo_def js_sub_def Let_def

theorem sortContourPoints_permutation_witness:
  "sortContourPoints samplePoints =
     [Vector3 (Finite 0) (Finite 0) (Finite 2),
      Vector3 (Finite 1) (Finite 0) (Finite 2),
      Vector3 (Finite 5) (Finite 0) (Finite 2)]
   \<and> mset (sortContourPoints samplePoints) = mset samplePoints
   \<and> sortContourPoints samplePoints ! 0 = samplePoints ! 0
   \<and> sortContourPoints (take 2 samplePoints) = take 2 samplePoints"
proof -
  have e: "sortContourPoints samplePoints =
     [Vector3 (Finite 0) (Finite 0) (Finite 2),
      Vector3 (Finite 1) (Finite 0) (Finite 2),
      Vector3 (Finite 5) (Finite 0) (Finite 2)]"
    by (simp add: samplePoints_def stitch_eval)
  have "3 \<le> length samplePoints" and "length (take 2 samplePoints) \<le> 2"
    by (simp_all add: samplePoints_def)
  then show ?thesis
    using e sortContourPoints_permutation[of samplePoints]
      sortContourPoints_permutation[of "take 2 samplePoints"]
    by blast
qed

section \<open>Slicing\<close>

lemma fold_push_nonempty:
  "fold (\<lambda>i paths. let z = h i; slicePath = f z in if length slicePath > 0 then paths @ [slicePath] else paths) xs acc
   = acc @ filter (\<lambda>c. c \<noteq> []) (map (\<lambda>i. f (h i)) xs)"
  by (induction xs arbitrary: acc) (auto simp: Let_def)

lemma generateCuttingPaths_filter:
  "generateCuttingPaths g =
     filter (\<lambda>c. c \<noteq> []) (map (\<lambda>i. generateSliceContour g (sliceHeightAt g i)) [0..<sliceCount + 1])"
  unfolding generateCuttingPaths_def for_loop_fold loop_range_unit fold_push_nonempty
  by (simp only: append_Nil)

lemma getTriangle_z: "p \<in> set (getTriangleZPlaneIntersections v1 v2 v3 z tol) \<Longrightarrow> vz p = z"
  by (auto simp: getTriangle_unfold dest: edgeIntersections_z)

lemma set_sortContourPoints: "set (sortContourPoints points) = set points"
  using mset_sortContourPoints by (rule mset_eq_setD)

lemma generateSliceContour_z:
  assumes "p \<in> set (generateSliceContour g z)"
  shows "vz p = z"
proof -
  define contour where "contour = (case index g of
               Some indices \<Rightarrow>
                 for_loop 0 (length indices) 3
                   (\<lambda>i contour. case indexedTriangle (positions g) indices i of (v1, v2, v3) \<Rightarrow>
                      contour @ getTriangleZPlaneIntersections v1 v2 v3 z (Finite (1/10)))
                   []
             | None \<Rightarrow> [])"
  have inv: "\<forall>q\<in>set contour. vz q = z"
  proof (cases "index g")
    case None
    then show ?thesis by (simp add: contour_def)
  next
    case (Some indices)
    have "\<forall>q\<in>set (for_loop 0 (length indices) 3
                   (\<lambda>i contour. case indexedTriangle (positions g) indices i of (v1, v2, v3) \<Rightarrow>
                      contour @ getTriangleZPlaneIntersections v1 v2 v3 z (Finite (1/10)))
                   []). vz q = z"
      by (rule for_loop_invariant) (auto split: prod.splits dest: getTriangle_z)
    then show ?thesis using Some by (simp add: contour_def)
  qed
  have "generateSliceContour g z = (if length contour > 2 then sortContourPoints contour else contour)"
    by (simp add: generateSliceContour_def contour_def Let_def)
  then have "set (generateSliceContour g z) = set contour"
    by (simp add: set_sortContourPoints)
  then show ?thesis using assms inv by blast
qed

lemma generateSliceContour_no_index: "index g = None \<Longrightarrow> generateSliceContour g z = []"
  by (simp add: generateSliceContour_def)

lemmas slice_eval = generateSliceContour_def Let_def for_loop.simps indexedTriangle_def
  index_offset_def vertexAt_def newVector3_def arr_read_def getTriangle_unfold edgeIntersections_def
  js_sub_def js_ge_def js_gt_def lerp_def sliceHeightAt_def sliceCount_def

lemma upt_21: "[0..<21] = [0, 1, 2, 3, 4, 5, 6, 7, 8, 9, 10, 11, 12, 13, 14, 15, 16, 17, 18, 19, 20]"
  by (simp add: upt_rec)

lemma twoTriangles_box: "boundingBox twoTriangles = computeBoundingBox (positions twoTriangles)"
  by (simp add: twoTriangles_def computeBoundingBox_def axis_def vertexCount_def upt_rec)

lemma twoTriangles_paths:
  "generateCuttingPaths twoTriangles =
    [[Vector3 (Finite 0) (Finite 0) (Finite 0), Vector3 (Finite 0) (Finite 0) (Finite 0)],
     [Vector3 (Finite 4) (Finite 0) (Finite 1), Vector3 (Finite 0) (Finite 4) (Finite 1)],
     [Vector3 (Finite 0) (Finite 0) (Finite 19), Vector3 (Finite 0) (Finite 0) (Finite 19)],
     [Vector3 (Finite 4) (Finite 0) (Finite 20), Vector3 (Finite 0) (Finite 4) (Finite 20)]]"
  unfolding generateCuttingPaths_filter
  by (simp add: slice_eval twoTriangles_def upt_21)

text \<open>
  C3. A geometry without an index (a triangle soup, as the STL loader produces) has an
  empty contour at every height, so \<^verbatim>\<open>generateCuttingPaths\<close> returns no path.
\<close>

theorem non_indexed_no_paths:
  "index g = None \<Longrightarrow> generateSliceContour g z = [] \<and> generateCuttingPaths g = []"
  by (simp add: generateCuttingPaths_filter generateSliceContour_no_index)

theorem non_indexed_no_paths_witness:
  "index soup = None \<and> generateSliceContour soup (Finite 2) = [] \<and> generateCuttingPaths soup = []"
  using non_indexed_no_paths[of soup "Finite 2"] by (simp add: soup_def)

text \<open>
  C7. \<^verbatim>\<open>generateCuttingPaths\<close> slices at the 21 heights
  \<open>minZ + i * sliceHeight\<close> for \<open>i = 0, \<dots>, 20\<close> in this order, with
  \<open>sliceHeight = (maxZ - minZ) / 20\<close>, and keeps the contours that are not empty: the
  result has at most 21 contours and none of them is empty.
\<close>

theorem cutting_paths_samples:
  "generateCuttingPaths g =
     (let minZ = vz (box_min (boundingBox g));
          maxZ = vz (box_max (boundingBox g));
          sliceHeight = js_div (js_sub maxZ minZ) (Finite 20)
      in filter (\<lambda>contour. contour \<noteq> [])
           (map (\<lambda>i. generateSliceContour g (js_add minZ (js_mul (Finite (real i)) sliceHeight)))
              [0..<21]))
   \<and> length (generateCuttingPaths g) \<le> 21
   \<and> [] \<notin> set (generateCuttingPaths g)"
proof -
  have e: "generateCuttingPaths g =
     filter (\<lambda>c. c \<noteq> []) (map (\<lambda>i. generateSliceContour g (sliceHeightAt g i)) [0..<21])"
    using generateCuttingPaths_filter[of g] by (simp add: sliceCount_def)
  have l: "length (generateCuttingPaths g) \<le> length (map (\<lambda>i. generateSliceContour g (sliceHeightAt g i)) [0..<21])"
    unfolding e by (rule length_filter_le)
  have n: "[] \<notin> set (generateCuttingPaths g)" unfolding e by simp
  show ?thesis using e l n by (simp add: sliceHeightAt_def sliceCount_def Let_def)
qed

theorem cutting_paths_samples_witness:
  "length (generateCuttingPaths twoTriangles) = 4
   \<and> length (generateCuttingPaths twoTriangles) \<le> 21
   \<and> [] \<notin> set (generateCuttingPaths twoTriangles)"
proof -
  have k: "length (generateCuttingPaths twoTriangles) = 4"
    by (simp add: twoTriangles_paths)
  have "length (generateCuttingPaths twoTriangles) \<le> 21
        \<and> [] \<notin> set (generateCuttingPaths twoTriangles)"
    using cutting_paths_samples[of twoTriangles] by (rule conjunct2)
  then show ?thesis using k by blast
qed

text \<open>
  C9. Every point of the contour sliced at height \<open>z\<close> has \<open>z\<close> as its third
  coordinate; every contour of \<^verbatim>\<open>generateCuttingPaths\<close> is the contour of one of the
  sampled heights, and all its points lie at that height; and stitching returns the very
  points it was given.
\<close>

theorem slice_points_on_plane:
  "(\<forall>p \<in> set (generateSliceContour g z). vz p = z)
   \<and> (\<forall>contour \<in> set (generateCuttingPaths g).
        \<exists>i \<le> sliceCount. contour = generateSliceContour g (sliceHeightAt g i)
                         \<and> (\<forall>p \<in> set contour. vz p = sliceHeightAt g i))
   \<and> set (sortContourPoints points) = set points"
proof -
  have a: "\<forall>p \<in> set (generateSliceContour g z). vz p = z" for z
    using generateSliceContour_z by blast
  have b: "\<exists>i \<le> sliceCount. contour = generateSliceContour g (sliceHeightAt g i)
                         \<and> (\<forall>p \<in> set contour. vz p = sliceHeightAt g i)"
    if "contour \<in> set (generateCuttingPaths g)" for contour
  proof -
    from that obtain i where "i < sliceCount + 1" "contour = generateSliceContour g (sliceHeightAt g i)"
      unfolding generateCuttingPaths_filter set_filter set_map set_upt by auto
    then show ?thesis using a by (intro exI[of _ i]) auto
  qed
  show ?thesis using a b set_sortContourPoints by blast
qed

theorem slice_points_on_plane_witness:
  "generateSliceContour twoTriangles (Finite 1) =
     [Vector3 (Finite 4) (Finite 0) (Finite 1), Vector3 (Finite 0) (Finite 4) (Finite 1)]
   \<and> vz (generateSliceContour twoTriangles (Finite 1) ! 0) = Finite 1
   \<and> vz (generateSliceContour twoTriangles (Finite 1) ! 1) = Finite 1"
proof -
  have e: "generateSliceContour twoTriangles (Finite 1) =
     [Vector3 (Finite 4) (Finite 0) (Finite 1), Vector3 (Finite 0) (Finite 4) (Finite 1)]"
    by (simp add: slice_eval twoTriangles_def)
  have "\<forall>p \<in> set (generateSliceContour twoTriangles (Finite 1)). vz p = Finite 1"
    using slice_points_on_plane[of twoTriangles "Finite 1" "[]"] by blast
  then show ?thesis using e by simp
qed

section \<open>Volume\<close>















section \<open>Bounding box of finite positions\<close>












section \<open>Centering and scaling\<close>

lemma centerAndScale_eq:
  "centerAndScale pos idx =
     (let center = getCenter (computeBoundingBox pos);
          scale = scaleFactor pos;
          pos2 = geometry_scale
                   (geometry_translate pos
                      (js_neg (vx center)) (js_neg (vy center)) (js_neg (vz center)))
                   scale scale scale
      in \<lparr>positions = pos2, index = idx, boundingBox = computeBoundingBox pos2\<rparr>)"
  by (simp add: centerAndScale_def scaleFactor_def boxMaxDimension_def Let_def)



















lemmas box_eval = computeBoundingBox_def axis_def vertexCount_def upt_rec
  boxMaxDimension_def getSize_def getCenter_def isEmpty_def sub_def js_sub_def scaleFactor_def
  signed_infinity_def

lemmas move_eval = geometry_translate_def geometry_scale_def geometry_applyMatrix4_def
  applyMatrix4_def makeTranslation_def makeScale_def component_def




lemma degenerate_positions:
  "positions (centerAndScale degeneratePositions idx) = [NaN, NaN, NaN, NaN, NaN, NaN, NaN, NaN, NaN]"
  by (simp add: centerAndScale_eq Let_def degeneratePositions_def box_eval move_eval)



section \<open>Results of parsing\<close>





text \<open>
  C1. A geometry whose bounding box has the maximum dimension 0 should be rejected
  before the division of line 82. The code does not do so: for a triangle whose three
  corners are the point \<open>(1, 2, 3)\<close> the maximum dimension is 0, the scale factor
  \<open>100 / 0\<close> is \<open>+\<infinity>\<close>, every coordinate becomes \<open>0 * \<infinity> = NaN\<close>, and
  \<^verbatim>\<open>parseFile\<close> reports success, against the comment of that line, "Scale to fit in
  100 unit cube".
\<close>

theorem degenerate_mesh_succeeds:
  "boxMaxDimension (computeBoundingBox degeneratePositions) = Finite 0
   \<and> scaleFactor degeneratePositions = PosInfinity
   \<and> positions (centerAndScale degeneratePositions None) =
        [NaN, NaN, NaN, NaN, NaN, NaN, NaN, NaN, NaN]
   \<and> success (parseFile ''stl'' (Loaded (Some degeneratePositions) None))"
proof -
  have m: "boxMaxDimension (computeBoundingBox degeneratePositions) = Finite 0"
    by (simp add: degeneratePositions_def box_eval)
  have s: "scaleFactor degeneratePositions = PosInfinity"
    by (simp add: degeneratePositions_def box_eval)
  have "success (parseFile ''stl'' (Loaded (Some degeneratePositions) None))"
    by (simp add: parseFile_def supportedExtension_def Let_def)
  then show ?thesis using m s degenerate_positions by blast
qed


text \<open>
  C6, as the code has it. For a supported extension and a loader that returned a
  geometry, \<^verbatim>\<open>parseFile\<close> fails with the message about missing position attributes
  exactly when the geometry has no position attribute; with a position attribute it
  succeeds, however many vertices the attribute holds.
\<close>

theorem missing_position_failure:
  assumes "supportedExtension extension"
  shows "(parseFile extension (Loaded position idx) = Failure ''Invalid geometry: missing position attributes'')
           = (position = None)
         \<and> success (parseFile extension (Loaded position idx)) = (position \<noteq> None)"
  using assms by (cases position) (simp_all add: parseFile_def Let_def)

theorem missing_position_failure_witness:
  "supportedExtension ''obj''
   \<and> parseFile ''obj'' (Loaded None (Some [0, 1, 2])) = Failure ''Invalid geometry: missing position attributes''
   \<and> success (parseFile ''obj'' (Loaded (Some flatPositions) (Some [0, 1, 2])))"
proof -
  have a: "supportedExtension ''obj''" by (simp add: supportedExtension_def)
  show ?thesis
    using a missing_position_failure[OF a, of None "Some [0, 1, 2]"]
      missing_position_failure[OF a, of "Some flatPositions" "Some [0, 1, 2]"]
    by simp
qed

text \<open>
  C6 as stated fails: a geometry whose position attribute holds zero vertices (a binary
  STL file with a face count of 0) is not rejected.
\<close>

theorem zero_vertices_succeeds:
  "vertexCount [] = 0 \<and> success (parseFile ''stl'' (Loaded (Some []) None))"
  by (simp add: vertexCount_def parseFile_def supportedExtension_def Let_def)

end
